theory Spec2Isabelle
  imports Complex_Main
begin

section \<open>Python values used by both services\<close>

text \<open>
  Python floats are modelled by the reals: finite values are exact, there is no rounding
  error and no overflow. Where the code can produce a special value (a NaN or an infinity,
  in the pandas pipeline of the bank service) the value is written out, see \<open>fval\<close> below.
  Exceptions are values: a function that can raise returns \<open>py_exception + 'a\<close>.
\<close>

datatype py_exception =
    KeyError string
  | ZeroDivisionError
  | IndexError
  | ValueError
  | OverflowError
  | FetchError

text \<open>\<open>a / b\<close> on Python numbers raises on a zero divisor.\<close>

definition py_truediv :: "real \<Rightarrow> real \<Rightarrow> py_exception + real" where
  "py_truediv a b = (if b = 0 then Inl ZeroDivisionError else Inr (a / b))"

text \<open>
  \<open>round(x, 2)\<close>: the nearest multiple of 0.01; an exact tie goes to the even neighbour
  (the rule of Python and of numpy alike).
\<close>

definition py_round2 :: "real \<Rightarrow> real" where
  "py_round2 x =
     (let y = x * 100; f = \<lfloor>y\<rfloor>; d = y - of_int f
      in (if d < 1 / 2 then of_int f
          else if 1 / 2 < d then of_int (f + 1)
          else if even f then of_int f else of_int (f + 1)) / 100)"

text \<open>\<open>d[k]\<close> raises \<open>KeyError\<close> on a missing key; \<open>d.get(k, default)\<close> does not.\<close>

definition dict_getitem :: "(string \<rightharpoonup> 'v) \<Rightarrow> string \<Rightarrow> py_exception + 'v" where
  "dict_getitem d k = (case d k of None \<Rightarrow> Inl (KeyError k) | Some v \<Rightarrow> Inr v)"

definition dict_get :: "(string \<rightharpoonup> 'v) \<Rightarrow> string \<Rightarrow> 'v \<Rightarrow> 'v" where
  "dict_get d k dflt = (case d k of None \<Rightarrow> dflt | Some v \<Rightarrow> v)"

section \<open>services/budget\_planner.py: AIBudgetPlanner\<close>

subsection \<open>\<open>_calculate_budget_allocation\<close>\<close>

record bucket =
  amount :: real
  percentage :: real
  breakdown :: "(string \<times> real) list"

record budget_allocation =
  essential_expenses :: bucket
  financial_goals :: bucket
  discretionary :: bucket

text \<open>
  The parameters \<open>expenses\<close> and \<open>goals\<close> are accepted and never read, as in the source.
  The only division by a variable is the one by \<open>income\<close> for the discretionary percentage.
\<close>

definition calculate_budget_allocation ::
  "real \<Rightarrow> (string \<rightharpoonup> real) \<Rightarrow> string list \<Rightarrow> string \<Rightarrow> int \<Rightarrow> py_exception + budget_allocation" where
  "calculate_budget_allocation income expenses goals risk_tolerance age =
     (let total_allocated0 = 0;
          essential_percentage = (if risk_tolerance = ''conservative'' then 55 else 50);
          essential_amount = (income * essential_percentage) / 100;
          essential = \<lparr>amount = py_round2 essential_amount,
                       percentage = essential_percentage,
                       breakdown = [(''housing'', py_round2 (essential_amount * (55 / 100))),
                                    (''utilities'', py_round2 (essential_amount * (18 / 100))),
                                    (''groceries'', py_round2 (essential_amount * (27 / 100)))]\<rparr>;
          total_allocated1 = total_allocated0 + essential_amount;
          goals_percentage = (if age < 30 then 25 else 20);
          goals_amount = (income * goals_percentage) / 100;
          fin_goals = \<lparr>amount = py_round2 goals_amount,
                       percentage = goals_percentage,
                       breakdown = [(''emergency_fund'', py_round2 (goals_amount * (4 / 10))),
                                    (''savings'', py_round2 (goals_amount * (3 / 10))),
                                    (''investments'', py_round2 (goals_amount * (3 / 10)))]\<rparr>;
          total_allocated = total_allocated1 + goals_amount;
          discretionary_amount = income - total_allocated
      in case py_truediv discretionary_amount income of
           Inl e \<Rightarrow> Inl e
         | Inr q \<Rightarrow>
             (let discretionary_percentage = q * 100
              in Inr \<lparr>essential_expenses = essential,
                      financial_goals = fin_goals,
                      discretionary =
                        \<lparr>amount = py_round2 discretionary_amount,
                         percentage = py_round2 discretionary_percentage,
                         breakdown =
                           [(''entertainment'', py_round2 (discretionary_amount * (33 / 100))),
                            (''dining_out'', py_round2 (discretionary_amount * (27 / 100))),
                            (''shopping'', py_round2 (discretionary_amount * (23 / 100))),
                            (''hobbies'', py_round2 (discretionary_amount * (17 / 100)))]\<rparr>\<rparr>))"

subsection \<open>\<open>_generate_52_week_breakdown\<close> and \<open>_create_savings_challenges\<close>\<close>

record week_entry =
  week :: int
  week_amount :: int
  cumulative :: int

text \<open>
  \<open>for week in range(1, 53)\<close>: one entry per week, its cumulative amount computed afresh as
  \<open>sum(range(1, week + 1))\<close>.
\<close>

definition generate_52_week_breakdown :: "week_entry list" where
  "generate_52_week_breakdown =
     map (\<lambda>w. \<lparr>week = w, week_amount = w, cumulative = sum_list [1..w]\<rparr>) [1..52]"

text \<open>
  The three challenge dictionaries have different keys; a key a challenge does not have is
  \<open>None\<close>. The free-text keys (description, rules, how\_it\_works) are left out.
\<close>

record savings_challenge =
  challenge_id :: string
  challenge_name :: string
  total_savings :: "int option"
  potential_savings :: "real option"
  duration :: string
  weekly_breakdown :: "week_entry list option"
  difficulty :: string
  suitable_for :: string

definition create_savings_challenges :: "real \<Rightarrow> string list \<Rightarrow> savings_challenge list" where
  "create_savings_challenges income goals =
     [\<lparr>challenge_id = ''52_week'', challenge_name = ''52-Week Savings Challenge'',
       total_savings = Some 1378, potential_savings = None, duration = ''52 weeks'',
       weekly_breakdown = Some generate_52_week_breakdown,
       difficulty = ''Easy'', suitable_for = ''Beginners''\<rparr>,
      \<lparr>challenge_id = ''no_spend'', challenge_name = ''30-Day No-Spend Challenge'',
       total_savings = None, potential_savings = Some (py_round2 (income * (25 / 100))),
       duration = ''30 days'', weekly_breakdown = None,
       difficulty = ''Hard'', suitable_for = ''Advanced''\<rparr>,
      \<lparr>challenge_id = ''round_up'', challenge_name = ''Round-Up Challenge'',
       total_savings = None, potential_savings = Some (py_round2 (income * (5 / 100))),
       duration = ''Ongoing'', weekly_breakdown = None,
       difficulty = ''Easy'', suitable_for = ''Everyone''\<rparr>]"

subsection \<open>\<open>_calculate_financial_health_score\<close>\<close>

record user_data =
  ud_monthly_income :: "real option"
  ud_current_expenses :: "(string \<rightharpoonup> real) option"
  ud_financial_goals :: "string list option"

text \<open>
  One constructor per message the scorer can append to \<open>factors\<close>; a message that prints a
  ratio carries the ratio.
\<close>

datatype health_factor =
    HighIncome | GoodIncome | ModerateIncome | LowIncome
  | ExcellentSavingsRate real | GoodSavingsRate real | ModerateSavingsRate real
  | LowSavingsRate real
  | ExcellentDebtManagement real | GoodDebtManagement real | ModerateDebtLoad real
  | HighDebtLoad real
  | MultipleGoals | SomeGoals | NoGoals
  | StrongEmergencyFund real | AdequateEmergencyFund real | InsufficientEmergencyFund real

record financial_health =
  fh_score :: int
  fh_max_score :: int
  fh_status :: string
  fh_status_color :: string
  fh_factors :: "health_factor list"
  fh_recommendation :: string

text \<open>Each rubric block of the source: the points it adds and the message it appends.\<close>

definition income_factor :: "real \<Rightarrow> int \<times> health_factor" where
  "income_factor income =
     (if income > 50000 then (20, HighIncome)
      else if income > 30000 then (15, GoodIncome)
      else if income > 15000 then (10, ModerateIncome)
      else (0, LowIncome))"

definition savings_factor :: "real \<Rightarrow> int \<times> health_factor" where
  "savings_factor savings_rate =
     (if savings_rate \<ge> 20 then (25, ExcellentSavingsRate savings_rate)
      else if savings_rate \<ge> 15 then (20, GoodSavingsRate savings_rate)
      else if savings_rate \<ge> 10 then (15, ModerateSavingsRate savings_rate)
      else (0, LowSavingsRate savings_rate))"

definition debt_factor :: "real \<Rightarrow> int \<times> health_factor" where
  "debt_factor debt_ratio =
     (if debt_ratio \<le> 10 then (20, ExcellentDebtManagement debt_ratio)
      else if debt_ratio \<le> 20 then (15, GoodDebtManagement debt_ratio)
      else if debt_ratio \<le> 30 then (10, ModerateDebtLoad debt_ratio)
      else (0, HighDebtLoad debt_ratio))"

definition goals_factor :: "string list \<Rightarrow> int \<times> health_factor" where
  "goals_factor goals =
     (if length goals \<ge> 3 then (20, MultipleGoals)
      else if length goals \<ge> 1 then (15, SomeGoals)
      else (0, NoGoals))"

definition emergency_factor :: "real \<Rightarrow> int \<times> health_factor" where
  "emergency_factor emergency_months =
     (if emergency_months \<ge> 6 then (15, StrongEmergencyFund emergency_months)
      else if emergency_months \<ge> 3 then (10, AdequateEmergencyFund emergency_months)
      else (0, InsufficientEmergencyFund emergency_months))"

text \<open>The status block at the end of the scorer: status and colour from the total.\<close>

definition financial_status :: "int \<Rightarrow> string \<times> string" where
  "financial_status s =
     (if s \<ge> 80 then (''Excellent'', ''green'')
      else if s \<ge> 60 then (''Good'', ''blue'')
      else if s \<ge> 40 then (''Fair'', ''orange'')
      else (''Poor'', ''red''))"

definition get_health_recommendation :: "int \<Rightarrow> string" where
  "get_health_recommendation s =
     (if s \<ge> 80 then
        ''Excellent financial health! Focus on wealth building and advanced strategies.''
      else if s \<ge> 60 then
        ''Good financial health. Continue building emergency fund and increasing savings.''
      else if s \<ge> 40 then
        ''Fair financial health. Prioritize debt reduction and emergency fund building.''
      else ''Poor financial health. Focus on basic budgeting and debt management first.'')"

text \<open>\<open>(a / income) * scale if income > 0 else 0\<close>: the division is reached only under the guard.\<close>

definition guarded_ratio :: "real \<Rightarrow> real \<Rightarrow> real \<Rightarrow> py_exception + real" where
  "guarded_ratio a income scale =
     (if income > 0
      then (case py_truediv a income of Inl e \<Rightarrow> Inl e | Inr q \<Rightarrow> Inr (q * scale))
      else Inr 0)"

definition calculate_financial_health_score :: "user_data \<Rightarrow> py_exception + financial_health" where
  "calculate_financial_health_score ud =
     (let income = (case ud_monthly_income ud of None \<Rightarrow> 0 | Some x \<Rightarrow> x);
          expenses = (case ud_current_expenses ud of None \<Rightarrow> Map.empty | Some m \<Rightarrow> m);
          goals = (case ud_financial_goals ud of None \<Rightarrow> [] | Some g \<Rightarrow> g);
          f_income = income_factor income;
          savings = dict_get expenses ''savings'' 0
      in case guarded_ratio savings income 100 of
           Inl e \<Rightarrow> Inl e
         | Inr savings_rate \<Rightarrow>
        (let f_savings = savings_factor savings_rate;
             debt_payments = dict_get expenses ''debt_payments'' 0
         in case guarded_ratio debt_payments income 100 of
              Inl e \<Rightarrow> Inl e
            | Inr debt_ratio \<Rightarrow>
          (let f_debt = debt_factor debt_ratio;
               f_goals = goals_factor goals;
               emergency_fund = dict_get expenses ''emergency_fund'' 0
           in case guarded_ratio emergency_fund income 1 of
                Inl e \<Rightarrow> Inl e
              | Inr emergency_months \<Rightarrow>
            (let f_emergency = emergency_factor emergency_months;
                 total = 0 + fst f_income + fst f_savings + fst f_debt + fst f_goals
                           + fst f_emergency
             in Inr \<lparr>fh_score = total,
                     fh_max_score = 100,
                     fh_status = fst (financial_status total),
                     fh_status_color = snd (financial_status total),
                     fh_factors = [snd f_income, snd f_savings, snd f_debt, snd f_goals,
                                   snd f_emergency],
                     fh_recommendation = get_health_recommendation total\<rparr>))))"

subsection \<open>\<open>get_savings_tips\<close>\<close>

record savings_tip =
  title :: string
  tip :: string
  tip_difficulty :: string
  impact :: string

text \<open>The local table \<open>tips\<close>; the rupee sign of the texts is written \<open>Rs\<close>.\<close>

definition tips :: "string \<rightharpoonup> savings_tip list" where
  "tips =
     [''beginner'' \<mapsto>
        [\<lparr>title = ''Start Small'',
          tip = ''Begin with saving just Rs100 per day. It adds up to Rs36,500 per year!'',
          tip_difficulty = ''Easy'', impact = ''High''\<rparr>,
         \<lparr>title = ''Use the 50/30/20 Rule'',
          tip = ''50% for needs, 30% for wants, 20% for savings'',
          tip_difficulty = ''Easy'', impact = ''High''\<rparr>,
         \<lparr>title = ''Track Every Rupee'',
          tip = ''Use apps to track all expenses. Awareness leads to better decisions.'',
          tip_difficulty = ''Easy'', impact = ''Medium''\<rparr>],
      ''intermediate'' \<mapsto>
        [\<lparr>title = ''Automate Savings'',
          tip = ''Set up automatic transfers to savings account on payday'',
          tip_difficulty = ''Easy'', impact = ''High''\<rparr>,
         \<lparr>title = ''Cut Subscriptions'',
          tip = ''Review and cancel unused subscriptions. Save Rs500-2000 monthly.'',
          tip_difficulty = ''Medium'', impact = ''Medium''\<rparr>,
         \<lparr>title = ''Meal Planning'',
          tip = ''Plan meals weekly to reduce food waste and dining out costs'',
          tip_difficulty = ''Medium'', impact = ''High''\<rparr>],
      ''advanced'' \<mapsto>
        [\<lparr>title = ''Side Hustle'',
          tip = ''Start a side business or freelance work for extra income'',
          tip_difficulty = ''Hard'', impact = ''Very High''\<rparr>,
         \<lparr>title = ''Invest Wisely'',
          tip = ''Start SIP in mutual funds for long-term wealth building'',
          tip_difficulty = ''Medium'', impact = ''Very High''\<rparr>,
         \<lparr>title = ''Negotiate Bills'',
          tip = ''Negotiate with service providers for better rates'',
          tip_difficulty = ''Hard'', impact = ''Medium''\<rparr>]]"

text \<open>
  \<open>return tips.get(user_profile, tips["general"])\<close>: Python evaluates the arguments of a
  call before the call, so the subscript \<open>tips["general"]\<close> is evaluated first, whatever
  \<open>user_profile\<close> is.
\<close>

definition get_savings_tips :: "string \<Rightarrow> py_exception + savings_tip list" where
  "get_savings_tips user_profile =
     (case dict_getitem tips ''general'' of
        Inl e \<Rightarrow> Inl e
      | Inr fallback \<Rightarrow> Inr (dict_get tips user_profile fallback))"

section \<open>services/bank\_analysis.py: BankHealthAnalyzer\<close>

subsection \<open>numpy floats with their special values\<close>

text \<open>
  The price columns are numpy \<open>float64\<close> values. Dividing by zero there does not raise:
  it gives an infinity, or NaN for \<open>0 / 0\<close>, and pandas gives NaN where a statistic is
  undefined. These values reach the scorer, so they are part of the model. Finite values
  are reals; the sign of a zero is not modelled.
\<close>

datatype fval = Fin real | PInf | NInf | NaN

fun f_lt :: "fval \<Rightarrow> fval \<Rightarrow> bool" where
  "f_lt NaN b = False"
| "f_lt a NaN = False"
| "f_lt (Fin x) (Fin y) = (x < y)"
| "f_lt (Fin x) PInf = True"
| "f_lt (Fin x) NInf = False"
| "f_lt PInf b = False"
| "f_lt NInf NInf = False"
| "f_lt NInf b = True"

fun f_le :: "fval \<Rightarrow> fval \<Rightarrow> bool" where
  "f_le NaN b = False"
| "f_le a NaN = False"
| "f_le (Fin x) (Fin y) = (x \<le> y)"
| "f_le (Fin x) PInf = True"
| "f_le (Fin x) NInf = False"
| "f_le PInf PInf = True"
| "f_le PInf b = False"
| "f_le NInf b = True"

fun f_neg :: "fval \<Rightarrow> fval" where
  "f_neg (Fin x) = Fin (- x)"
| "f_neg PInf = NInf"
| "f_neg NInf = PInf"
| "f_neg NaN = NaN"

fun f_abs :: "fval \<Rightarrow> fval" where
  "f_abs (Fin x) = Fin \<bar>x\<bar>"
| "f_abs PInf = PInf"
| "f_abs NInf = PInf"
| "f_abs NaN = NaN"

fun f_add :: "fval \<Rightarrow> fval \<Rightarrow> fval" where
  "f_add NaN b = NaN"
| "f_add a NaN = NaN"
| "f_add (Fin x) (Fin y) = Fin (x + y)"
| "f_add PInf NInf = NaN"
| "f_add NInf PInf = NaN"
| "f_add PInf b = PInf"
| "f_add a PInf = PInf"
| "f_add NInf b = NInf"
| "f_add a NInf = NInf"

definition f_sub :: "fval \<Rightarrow> fval \<Rightarrow> fval" where
  "f_sub a b = f_add a (f_neg b)"

fun f_mul :: "fval \<Rightarrow> fval \<Rightarrow> fval" where
  "f_mul NaN b = NaN"
| "f_mul a NaN = NaN"
| "f_mul (Fin x) (Fin y) = Fin (x * y)"
| "f_mul a b =
     (if a = Fin 0 \<or> b = Fin 0 then NaN
      else if f_lt a (Fin 0) = f_lt b (Fin 0) then PInf else NInf)"

fun f_div :: "fval \<Rightarrow> fval \<Rightarrow> fval" where
  "f_div NaN b = NaN"
| "f_div a NaN = NaN"
| "f_div (Fin x) (Fin y) =
     (if y = 0 then (if x = 0 then NaN else if 0 < x then PInf else NInf)
      else Fin (x / y))"
| "f_div (Fin x) b = Fin 0"
| "f_div a (Fin y) = (if f_lt a (Fin 0) = (y < 0) then PInf else NInf)"
| "f_div a b = NaN"

fun f_sqrt :: "fval \<Rightarrow> fval" where
  "f_sqrt (Fin x) = (if x < 0 then NaN else Fin (sqrt x))"
| "f_sqrt PInf = PInf"
| "f_sqrt NInf = NaN"
| "f_sqrt NaN = NaN"

text \<open>\<open>round(v, 2)\<close> keeps a NaN and an infinity as they are.\<close>

fun f_round2 :: "fval \<Rightarrow> fval" where
  "f_round2 (Fin x) = Fin (py_round2 x)"
| "f_round2 v = v"

text \<open>\<open>int(v)\<close> truncates towards zero and raises on a NaN or an infinity.\<close>

fun py_int :: "fval \<Rightarrow> py_exception + int" where
  "py_int (Fin x) = Inr (if 0 \<le> x then \<lfloor>x\<rfloor> else \<lceil>x\<rceil>)"
| "py_int NaN = Inl ValueError"
| "py_int PInf = Inl OverflowError"
| "py_int NInf = Inl OverflowError"

text \<open>\<open>str(n)\<close> of an integer.\<close>

fun nat_digits :: "nat \<Rightarrow> string" where
  "nat_digits n =
     (if n < 10 then [char_of (48 + n)]
      else nat_digits (n div 10) @ [char_of (48 + n mod 10)])"

declare nat_digits.simps [simp del]

definition py_str_int :: "int \<Rightarrow> string" where
  "py_str_int i = (if i < 0 then CHR ''-'' # nat_digits (nat (- i)) else nat_digits (nat i))"

text \<open>A dictionary value that the scorer tests with \<open>isinstance(v, (int, float))\<close>.\<close>

datatype pyval = PyStr string | PyNum fval

subsection \<open>The supplier's data and the pandas operations used on it\<close>

record bar =
  Close :: real
  High :: real
  Low :: real
  Volume :: int

text \<open>The keys of \<open>ticker.info\<close> that are read; \<open>None\<close> is a key that is absent or null.\<close>

record ticker_info =
  marketCap :: "int option"
  trailingPE :: "real option"
  priceToBook :: "real option"
  dividendYield :: "real option"

record market_feed =
  hist_data :: "bar list"
  info :: ticker_info

text \<open>\<open>xs.iloc[i]\<close>: a negative position counts from the end; out of range raises.\<close>

definition iloc :: "'a list \<Rightarrow> int \<Rightarrow> py_exception + 'a" where
  "iloc xs i =
     (if 0 \<le> i \<and> i < int (length xs) then Inr (xs ! nat i)
      else if i < 0 \<and> - int (length xs) \<le> i then Inr (xs ! nat (int (length xs) + i))
      else Inl IndexError)"

text \<open>
  \<open>Series.pct_change()\<close>: entry \<open>i\<close> is \<open>x[i] / x[i-1] - 1\<close>, the first entry is NaN.
  \<open>dropna()\<close> removes the NaN entries (an infinity stays).
\<close>

fun pct_change_from :: "real \<Rightarrow> real list \<Rightarrow> fval list" where
  "pct_change_from p [] = []"
| "pct_change_from p (x # xs) = f_sub (f_div (Fin x) (Fin p)) (Fin 1) # pct_change_from x xs"

fun pct_change :: "real list \<Rightarrow> fval list" where
  "pct_change [] = []"
| "pct_change (x # xs) = NaN # pct_change_from x xs"

definition dropna :: "fval list \<Rightarrow> fval list" where
  "dropna vs = filter (\<lambda>v. v \<noteq> NaN) vs"

definition f_sum :: "fval list \<Rightarrow> fval" where
  "f_sum vs = foldl f_add (Fin 0) vs"

text \<open>
  \<open>Series.std()\<close>: the sample standard deviation (\<open>ddof = 1\<close>) of the entries that are not
  NaN; NaN when there are fewer than two of them.
\<close>

definition series_std :: "fval list \<Rightarrow> fval" where
  "series_std vs =
     (let vals = dropna vs; count = length vals
      in if count \<le> 1 then NaN
         else (let avg = f_div (f_sum vals) (Fin (real count));
                   sqr = map (\<lambda>v. f_mul (f_sub avg v) (f_sub avg v)) vals
               in f_sqrt (f_div (f_sum sqr) (Fin (real count - 1)))))"

text \<open>
  \<open>xs.rolling(window=w).mean().iloc[-1]\<close> on a series that is not empty: the mean of the
  last \<open>w\<close> entries, NaN when there are fewer than \<open>w\<close> (\<open>min_periods\<close> is the window).
\<close>

definition rolling_mean_last :: "nat \<Rightarrow> real list \<Rightarrow> fval" where
  "rolling_mean_last w xs =
     (if length xs < w then NaN
      else Fin (sum_list (drop (length xs - w) xs) / real w))"

subsection \<open>\<open>get_bank_stock_data\<close>\<close>

definition INDIAN_BANKS :: "(string \<times> string) list" where
  "INDIAN_BANKS =
     [(''HDFC Bank'', ''HDFCBANK.NS''),
      (''ICICI Bank'', ''ICICIBANK.NS''),
      (''State Bank of India'', ''SBIN.NS''),
      (''Kotak Mahindra Bank'', ''KOTAKBANK.NS''),
      (''Axis Bank'', ''AXISBANK.NS''),
      (''Bank of Baroda'', ''BANKBARODA.NS''),
      (''Punjab National Bank'', ''PNB.NS''),
      (''Canara Bank'', ''CANBK.NS''),
      (''Union Bank'', ''UNIONBANK.NS''),
      (''IDBI Bank'', ''IDBI.NS'')]"

record bank_data =
  bank_name :: string
  symbol :: string
  current_price :: fval
  price_change :: fval
  price_change_pct :: fval
  volatility :: fval
  ma_20 :: fval
  ma_50 :: fval
  market_cap :: pyval
  volume :: int
  avg_volume :: int
  high_52w :: fval
  low_52w :: fval
  pe_ratio :: pyval
  pb_ratio :: pyval
  dividend_yield :: fval

text \<open>Lines 77 and 78: the annualised volatility of the close prices.\<close>

definition annualized_volatility :: "real list \<Rightarrow> fval" where
  "annualized_volatility closes =
     (let returns = dropna (pct_change closes)
      in f_mul (f_mul (series_std returns) (Fin (sqrt 252))) (Fin 100))"

text \<open>
  The body of the \<open>try\<close> block once the symbol is known and the supplier has answered:
  \<open>Inl\<close> is an exception raised inside the block, \<open>Inr (Inl msg)\<close> the error dictionary for
  an empty history, \<open>Inr (Inr d)\<close> the metrics.
\<close>

definition bank_metrics :: "string \<Rightarrow> string \<Rightarrow> market_feed \<Rightarrow> py_exception + (string + bank_data)" where
  "bank_metrics name ticker feed =
     (let hist = hist_data feed; closes = map Close hist
      in if hist = [] then Inr (Inl (''No data available for '' @ name))
         else
           case iloc closes (- 1) of Inl e \<Rightarrow> Inl e | Inr last_close \<Rightarrow>
           case iloc closes (- 2) of Inl e \<Rightarrow> Inl e | Inr prev_close \<Rightarrow>
           case iloc (map Volume hist) (- 1) of Inl e \<Rightarrow> Inl e | Inr last_volume \<Rightarrow>
           case py_int (rolling_mean_last 20 (map (\<lambda>b. real_of_int (Volume b)) hist)) of
             Inl e \<Rightarrow> Inl e
           | Inr mean_volume \<Rightarrow>
             (let change = f_sub (Fin last_close) (Fin prev_close);
                  change_pct = f_mul (f_div change (Fin prev_close)) (Fin 100)
              in Inr (Inr
                   \<lparr>bank_name = name,
                    symbol = ticker,
                    current_price = f_round2 (Fin last_close),
                    price_change = f_round2 change,
                    price_change_pct = f_round2 change_pct,
                    volatility = f_round2 (annualized_volatility closes),
                    ma_20 = f_round2 (rolling_mean_last 20 closes),
                    ma_50 = f_round2 (rolling_mean_last 50 closes),
                    market_cap =
                      PyStr (case marketCap (info feed) of
                               None \<Rightarrow> ''N/A'' | Some n \<Rightarrow> py_str_int n),
                    volume = last_volume,
                    avg_volume = mean_volume,
                    high_52w = Fin (Max (set (map High hist))),
                    low_52w = Fin (Min (set (map Low hist))),
                    pe_ratio =
                      (case trailingPE (info feed) of
                         None \<Rightarrow> PyStr ''N/A''
                       | Some v \<Rightarrow> if v = 0 then PyStr ''N/A'' else PyNum (Fin v)),
                    pb_ratio =
                      (case priceToBook (info feed) of
                         None \<Rightarrow> PyStr ''N/A''
                       | Some v \<Rightarrow> if v = 0 then PyStr ''N/A'' else PyNum (Fin v)),
                    dividend_yield =
                      (case dividendYield (info feed) of
                         None \<Rightarrow> Fin 0
                       | Some v \<Rightarrow> if v = 0 then Fin 0 else Fin (v * 100))\<rparr>)))"

text \<open>
  The supplier (yfinance) is a parameter: for a symbol it raises or gives the history
  and the info. Every exception inside the \<open>try\<close> block becomes the same error dictionary.
\<close>

type_synonym supplier = "string \<Rightarrow> py_exception + market_feed"

definition get_bank_stock_data :: "supplier \<Rightarrow> string \<Rightarrow> string + bank_data" where
  "get_bank_stock_data fetch name =
     (case map_of INDIAN_BANKS name of
        None \<Rightarrow> Inl (''Bank '' @ name @ '' not found in database'')
      | Some ticker \<Rightarrow>
          (case fetch ticker of
             Inl e \<Rightarrow> Inl (''Failed to fetch data for '' @ name)
           | Inr feed \<Rightarrow>
               (case bank_metrics name ticker feed of
                  Inl e \<Rightarrow> Inl (''Failed to fetch data for '' @ name)
                | Inr r \<Rightarrow> r)))"

subsection \<open>\<open>calculate_bank_health_score\<close>\<close>

text \<open>One constructor per message appended to \<open>analysis\<close>, with the value it prints.\<close>

datatype analysis_note =
    PositivePrice fval | NegativePrice fval
  | LowVolatility fval | ModerateVolatility fval | HighVolatility fval
  | StrongUptrend | ModerateTrend | Downtrend
  | ReasonablePE fval | UndervaluedPE fval | HighPE fval
  | GoodPB fval | HighPB fval
  | HighDividend fval | ModerateDividend fval | LowDividend fval
  | HighVolume | AboveAverageVolume | BelowAverageVolume
  | LargeCap | MidCap | SmallCap

record health_analysis =
  health_score :: real
  max_score :: int
  status :: string
  status_color :: string
  analysis :: "analysis_note list"
  recommendation :: string

text \<open>
  Each rubric block: the points it adds and the messages it appends. In the price block
  \<open>min(20, abs(p) * 2)\<close> is reached only for \<open>p > 0\<close>, where \<open>abs(p) * 2\<close> is a positive
  number or the positive infinity, and \<open>min(20, v)\<close> is \<open>v\<close> if \<open>v < 20\<close> and 20 otherwise.
\<close>

definition price_block :: "fval \<Rightarrow> real \<times> analysis_note list" where
  "price_block p =
     (if f_lt (Fin 0) p
      then ((case f_mul (f_abs p) (Fin 2) of
               Fin y \<Rightarrow> if y < 20 then y else 20
             | _ \<Rightarrow> 20), [PositivePrice p])
      else (0, [NegativePrice p]))"

definition volatility_block :: "fval \<Rightarrow> real \<times> analysis_note list" where
  "volatility_block v =
     (if f_lt v (Fin 20) then (15, [LowVolatility v])
      else if f_lt v (Fin 30) then (10, [ModerateVolatility v])
      else (0, [HighVolatility v]))"

definition ma_block :: "fval \<Rightarrow> fval \<Rightarrow> fval \<Rightarrow> real \<times> analysis_note list" where
  "ma_block price m20 m50 =
     (if f_lt m20 price \<and> f_lt m50 m20 then (15, [StrongUptrend])
      else if f_lt m20 price then (10, [ModerateTrend])
      else (0, [Downtrend]))"

definition pe_block :: "pyval \<Rightarrow> real \<times> analysis_note list" where
  "pe_block pe =
     (case pe of
        PyNum v \<Rightarrow>
          (if f_le (Fin 10) v \<and> f_le v (Fin 20) then (10, [ReasonablePE v])
           else if f_lt v (Fin 10) then (15, [UndervaluedPE v])
           else (0, [HighPE v]))
      | PyStr s \<Rightarrow> (0, []))"

definition pb_block :: "pyval \<Rightarrow> real \<times> analysis_note list" where
  "pb_block pb =
     (case pb of
        PyNum v \<Rightarrow> (if f_le v (Fin 2) then (10, [GoodPB v]) else (0, [HighPB v]))
      | PyStr s \<Rightarrow> (0, []))"

definition dividend_block :: "fval \<Rightarrow> real \<times> analysis_note list" where
  "dividend_block d =
     (if f_lt (Fin 3) d then (10, [HighDividend d])
      else if f_lt (Fin 1) d then (5, [ModerateDividend d])
      else (0, [LowDividend d]))"

definition volume_block :: "int \<Rightarrow> int \<Rightarrow> real \<times> analysis_note list" where
  "volume_block current_volume average_volume =
     (if real_of_int current_volume > real_of_int average_volume * (3 / 2) then (10, [HighVolume])
      else if current_volume > average_volume then (5, [AboveAverageVolume])
      else (0, [BelowAverageVolume]))"

definition is_number_above :: "pyval \<Rightarrow> real \<Rightarrow> bool" where
  "is_number_above v bound = (case v of PyNum x \<Rightarrow> f_lt (Fin bound) x | PyStr s \<Rightarrow> False)"

definition market_cap_block :: "pyval \<Rightarrow> real \<times> analysis_note list" where
  "market_cap_block mc =
     (if is_number_above mc 100000000000 then (10, [LargeCap])
      else if is_number_above mc 10000000000 then (5, [MidCap])
      else (0, [SmallCap]))"

text \<open>The status block (lines 206 to 217) and \<open>_get_recommendation\<close>.\<close>

definition health_status :: "real \<Rightarrow> string \<times> string" where
  "health_status s =
     (if s \<ge> 80 then (''Excellent'', ''green'')
      else if s \<ge> 60 then (''Good'', ''blue'')
      else if s \<ge> 40 then (''Fair'', ''orange'')
      else (''Poor'', ''red''))"

definition get_recommendation :: "real \<Rightarrow> string" where
  "get_recommendation s =
     (if s \<ge> 80 then ''Strong Buy - Excellent financial health and performance''
      else if s \<ge> 60 then ''Buy - Good fundamentals with potential for growth''
      else if s \<ge> 40 then ''Hold - Monitor closely, consider reducing exposure''
      else ''Sell - Poor performance, consider alternatives'')"

definition bank_rubric :: "bank_data \<Rightarrow> (real \<times> analysis_note list) list" where
  "bank_rubric d =
     [price_block (price_change_pct d),
      volatility_block (volatility d),
      ma_block (current_price d) (ma_20 d) (ma_50 d),
      pe_block (pe_ratio d),
      pb_block (pb_ratio d),
      dividend_block (dividend_yield d),
      volume_block (volume d) (avg_volume d),
      market_cap_block (market_cap d)]"

definition calculate_bank_health_score :: "string + bank_data \<Rightarrow> string + health_analysis" where
  "calculate_bank_health_score r =
     (case r of
        Inl msg \<Rightarrow> Inl msg
      | Inr d \<Rightarrow>
          (let total = foldl (+) 0 (map fst (bank_rubric d))
           in Inr \<lparr>health_score = total,
                   max_score = 100,
                   status = fst (health_status total),
                   status_color = snd (health_status total),
                   analysis = concat (map snd (bank_rubric d)),
                   recommendation = get_recommendation total\<rparr>))"

subsection \<open>\<open>get_banking_sector_overview\<close> and \<open>get_early_warning_indicators\<close>\<close>

record sector_entry =
  stock_data :: bank_data
  bank_health :: health_analysis

record sector_report =
  sector_overview :: "(string \<times> sector_entry) list"
  average_sector_score :: real
  sector_sentiment :: string
  sentiment_color :: string
  total_banks_analyzed :: nat

text \<open>
  The loop over the roster with its three accumulators. The roster's names are distinct,
  so storing under a name appends an entry.
\<close>

fun sector_loop ::
  "supplier \<Rightarrow> string list \<Rightarrow> (string \<times> sector_entry) list \<times> real \<times> nat
     \<Rightarrow> (string \<times> sector_entry) list \<times> real \<times> nat" where
  "sector_loop fetch [] acc = acc"
| "sector_loop fetch (name # names) (sector_data, total_score, bank_count) =
     (case get_bank_stock_data fetch name of
        Inl msg \<Rightarrow> sector_loop fetch names (sector_data, total_score, bank_count)
      | Inr d \<Rightarrow>
          (case calculate_bank_health_score (Inr d) of
             Inl msg \<Rightarrow> sector_loop fetch names (sector_data, total_score, bank_count)
           | Inr h \<Rightarrow>
               sector_loop fetch names
                 (sector_data @ [(name, \<lparr>stock_data = d, bank_health = h\<rparr>)],
                  total_score + health_score h, bank_count + 1)))"

text \<open>The sentiment block (lines 266 to 274).\<close>

definition sentiment_of :: "real \<Rightarrow> string \<times> string" where
  "sentiment_of avg_sector_score =
     (if avg_sector_score \<ge> 70 then (''Bullish'', ''green'')
      else if avg_sector_score \<ge> 50 then (''Neutral'', ''blue'')
      else (''Bearish'', ''red''))"

text \<open>The field \<open>analysis_date\<close> (the clock) is left out of both results.\<close>

definition get_banking_sector_overview :: "supplier \<Rightarrow> string + sector_report" where
  "get_banking_sector_overview fetch =
     (case sector_loop fetch (map fst INDIAN_BANKS) ([], 0, 0) of
        (sector_data, total_score, bank_count) \<Rightarrow>
          if bank_count > 0
          then (let avg_sector_score = total_score / real bank_count
                in Inr \<lparr>sector_overview = sector_data,
                        average_sector_score = py_round2 avg_sector_score,
                        sector_sentiment = fst (sentiment_of avg_sector_score),
                        sentiment_color = snd (sentiment_of avg_sector_score),
                        total_banks_analyzed = bank_count\<rparr>)
          else Inl ''Unable to fetch banking sector data'')"




subsection \<open>Notions used to state the properties\<close>

text \<open>
  The score of one roster bank as the sector loop obtains it (\<open>None\<close> when the bank is
  skipped), and the scores of the banks the loop keeps, in roster order.
\<close>

definition bank_score :: "supplier \<Rightarrow> string \<Rightarrow> real option" where
  "bank_score fetch name =
     (case get_bank_stock_data fetch name of
        Inl msg \<Rightarrow> None
      | Inr d \<Rightarrow>
          (case calculate_bank_health_score (Inr d) of
             Inl msg \<Rightarrow> None
           | Inr h \<Rightarrow> Some (health_score h)))"

definition scored_banks :: "supplier \<Rightarrow> real list" where
  "scored_banks fetch = List.map_filter (bank_score fetch) (map fst INDIAN_BANKS)"

text \<open>The score stored in an entry of the overview, and the levels of a warning list.\<close>

definition entry_score :: "string \<times> sector_entry \<Rightarrow> real" where
  "entry_score e = health_score (bank_health (snd e))"


subsection \<open>Sample supplier data\<close>

text \<open>
  Twenty trading days at a constant close of 100, with a volume of 100 on the first
  nineteen days and of 1000 on the last; four variants of the supplier's info; and a
  supplier given by a table from symbols to feeds that raises for every other symbol.
\<close>

definition flat_bar :: bar where
  "flat_bar = \<lparr>Close = 100, High = 101, Low = 99, Volume = 100\<rparr>"

definition spike_bar :: bar where
  "spike_bar = \<lparr>Close = 100, High = 101, Low = 99, Volume = 1000\<rparr>"

definition steady_history :: "bar list" where
  "steady_history = replicate 19 flat_bar @ [spike_bar]"

definition steady_feed :: "ticker_info \<Rightarrow> market_feed" where
  "steady_feed i = \<lparr>hist_data = steady_history, info = i\<rparr>"

definition feed_table :: "(string \<times> market_feed) list \<Rightarrow> supplier" where
  "feed_table tbl ticker = (case map_of tbl ticker of None \<Rightarrow> Inl FetchError | Some f \<Rightarrow> Inr f)"

definition no_info :: ticker_info where
  "no_info = \<lparr>marketCap = None, trailingPE = None, priceToBook = None, dividendYield = None\<rparr>"


definition fair_info :: ticker_info where
  "fair_info = \<lparr>marketCap = Some 5000000000000, trailingPE = Some 15, priceToBook = Some 1,
                 dividendYield = None\<rparr>"

definition strong_info :: ticker_info where
  "strong_info = \<lparr>marketCap = Some 5000000000000, trailingPE = Some 8, priceToBook = Some 1,
                   dividendYield = Some (4 / 100)\<rparr>"

text \<open>A user with debt payments and no income, for the financial-health scorer.\<close>

definition indebted_no_income :: user_data where
  "indebted_no_income =
     \<lparr>ud_monthly_income = Some 0,
      ud_current_expenses = Some [''debt_payments'' \<mapsto> 5000],
      ud_financial_goals = Some []\<rparr>"

text \<open>A supplier that answers for one bank only, with the steady history and no info.\<close>

definition lone_weak_bank :: supplier where
  "lone_weak_bank = feed_table [(''HDFCBANK.NS'', steady_feed no_info)]"




text \<open>
  Metrics that put every block of the bank rubric in its best tier; the market
  capitalisation is a number, which the scorer tests for.
\<close>

definition top_tier_data :: bank_data where
  "top_tier_data =
     \<lparr>bank_name = ''HDFC Bank'', symbol = ''HDFCBANK.NS'',
      current_price = Fin 110, price_change = Fin 10, price_change_pct = Fin 10,
      volatility = Fin 10, ma_20 = Fin 105, ma_50 = Fin 100,
      market_cap = PyNum (Fin 200000000000),
      volume = 200, avg_volume = 100, high_52w = Fin 112, low_52w = Fin 80,
      pe_ratio = PyNum (Fin 8), pb_ratio = PyNum (Fin (3 / 2)), dividend_yield = Fin 4\<rparr>"

text \<open>
  Short and degenerate histories: two days at equal closes, two days with a volume
  spike, and histories of 20 and of 50 days whose second-to-last close is 0.
\<close>

definition two_day_feed :: market_feed where
  "two_day_feed = \<lparr>hist_data = [flat_bar, flat_bar], info = no_info\<rparr>"

definition two_day_spike_feed :: market_feed where
  "two_day_spike_feed = \<lparr>hist_data = [flat_bar, spike_bar], info = strong_info\<rparr>"

definition halted_bar :: bar where
  "halted_bar = \<lparr>Close = 0, High = 101, Low = 0, Volume = 100\<rparr>"

definition halted_feed :: market_feed where
  "halted_feed = \<lparr>hist_data = replicate 18 flat_bar @ [halted_bar, spike_bar], info = no_info\<rparr>"

definition halted_long_feed :: market_feed where
  "halted_long_feed = \<lparr>hist_data = replicate 48 flat_bar @ [halted_bar, spike_bar], info = fair_info\<rparr>"

section \<open>Properties of the budget planner\<close>

subsection \<open>Auxiliary facts\<close>

lemma sum_upto_gauss: "0 \<le> k \<Longrightarrow> sum_list [1..k] = k * (k + 1) div 2"
proof (induction k rule: int_ge_induct)
  case base
  then show ?case by simp
next
  case (step i)
  have "[1..i + 1] = [1..i] @ [i + 1]"
    using step.hyps upto_rec2 [of 1 "i + 1"] by simp
  then show ?case using step by (simp add: algebra_simps)
qed

lemma upto_nth_week:
  assumes "1 \<le> k" "k \<le> 52"
  shows "[1..52] ! nat (k - 1) = k"
proof -
  have "1 + int (nat (k - 1)) \<le> 52" using assms by simp
  then have "[1..52] ! nat (k - 1) = 1 + int (nat (k - 1))" by (rule nth_upto)
  then show ?thesis using assms by simp
qed

lemma breakdown_len: "length generate_52_week_breakdown = 52"
  by (simp add: generate_52_week_breakdown_def)

lemma breakdown_nth:
  assumes "1 \<le> k" "k \<le> 52"
  shows "generate_52_week_breakdown ! nat (k - 1) =
           \<lparr>week = k, week_amount = k, cumulative = sum_list [1..k]\<rparr>"
proof -
  have "nat (k - 1) < length [1..52::int]" using assms by simp
  then show ?thesis
    unfolding generate_52_week_breakdown_def
    by (simp only: nth_map upto_nth_week [OF assms])
qed

lemma breakdown_last:
  "last generate_52_week_breakdown = generate_52_week_breakdown ! nat (52 - 1)"
proof -
  have "generate_52_week_breakdown \<noteq> []" using breakdown_len by auto
  then show ?thesis by (simp add: last_conv_nth breakdown_len)
qed

lemma py_round2_close: "\<bar>py_round2 x - x\<bar> \<le> 1 / 200"
proof -
  define y where "y = x * 100"
  define f where "f = \<lfloor>y\<rfloor>"
  have fl: "of_int f \<le> y" "y < of_int f + 1" unfolding f_def by linarith+
  have h: "\<bar>py_round2 x * 100 - y\<bar> \<le> 1 / 2"
    unfolding py_round2_def Let_def y_def [symmetric] f_def [symmetric]
    using fl by (auto simp: abs_le_iff)
  have e: "py_round2 x * 100 - y = (py_round2 x - x) * 100"
    unfolding y_def by (simp add: algebra_simps)
  have "\<bar>(py_round2 x - x) * 100\<bar> = \<bar>py_round2 x - x\<bar> * 100"
    by (simp only: abs_mult abs_numeral)
  with h e have "\<bar>py_round2 x - x\<bar> * 100 \<le> 1 / 2" by (simp only:)
  then show ?thesis by simp
qed

lemma tips_general: "tips ''general'' = None"
  by (simp add: tips_def)

lemma get_savings_tips_always_fails: "get_savings_tips p = Inl (KeyError ''general'')"
  by (simp add: get_savings_tips_def dict_getitem_def tips_general)

subsection \<open>The 52-week challenge\<close>

text \<open>
  Claim C8. In the breakdown of the 52-week challenge the entry of every week \<open>k\<close> from 1
  to 52 has cumulative amount \<open>k * (k + 1) / 2\<close>; the breakdown has 52 entries, the last
  cumulative amount is 1378, and the challenge's \<open>total_savings\<close> is the constant 1378
  whatever the income and the goals are.
\<close>

theorem week52_cumulative_closed_form:
  "(\<forall>k\<in>{1..52}. week (generate_52_week_breakdown ! nat (k - 1)) = k
       \<and> cumulative (generate_52_week_breakdown ! nat (k - 1)) = k * (k + 1) div 2)
   \<and> length generate_52_week_breakdown = 52
   \<and> cumulative (last generate_52_week_breakdown) = 1378
   \<and> (\<forall>income goals.
         total_savings (hd (create_savings_challenges income goals)) = Some 1378
         \<and> weekly_breakdown (hd (create_savings_challenges income goals))
             = Some generate_52_week_breakdown)"
proof -
  have a: "\<forall>k\<in>{1..52}. week (generate_52_week_breakdown ! nat (k - 1)) = k
       \<and> cumulative (generate_52_week_breakdown ! nat (k - 1)) = k * (k + 1) div 2"
    by (simp add: breakdown_nth sum_upto_gauss)
  have "cumulative (generate_52_week_breakdown ! nat (52 - 1)) = 1378"
    by (subst breakdown_nth) (simp_all add: sum_upto_gauss)
  then have b: "cumulative (last generate_52_week_breakdown) = 1378"
    by (simp only: breakdown_last)
  have c: "\<forall>income goals.
         total_savings (hd (create_savings_challenges income goals)) = Some 1378
         \<and> weekly_breakdown (hd (create_savings_challenges income goals))
             = Some generate_52_week_breakdown"
    by (simp add: create_savings_challenges_def)
  from a b c breakdown_len show ?thesis by blast
qed

theorem week52_cumulative_closed_form_witness:
  "(10::int) \<in> {1..52} \<and> cumulative (generate_52_week_breakdown ! nat (10 - 1)) = 55"
proof -
  have m: "(10::int) \<in> {1..52}" by simp
  from week52_cumulative_closed_form
  have "\<forall>k\<in>{1..52}.
          cumulative (generate_52_week_breakdown ! nat (k - 1)) = k * (k + 1) div 2"
    by blast
  from bspec [OF this m] m show ?thesis by simp
qed

subsection \<open>Savings tips\<close>

text \<open>
  Claim C10. The tips table has no entry \<open>general\<close>, and for every profile other than
  beginner, intermediate and advanced (the default \<open>general\<close> among them)
  \<open>get_savings_tips\<close> raises the key error of the missing fallback entry instead of
  returning a list of tips.
\<close>

theorem get_savings_tips_unknown_profile_fails:
  assumes "user_profile \<notin> {''beginner'', ''intermediate'', ''advanced''}"
  shows "tips ''general'' = None
         \<and> get_savings_tips user_profile = Inl (KeyError ''general'')"
  by (simp add: tips_general get_savings_tips_always_fails)

theorem get_savings_tips_unknown_profile_fails_witness:
  "''general'' \<notin> {''beginner'', ''intermediate'', ''advanced''}
   \<and> get_savings_tips ''general'' = Inl (KeyError ''general'')"
proof -
  have h: "''general'' \<notin> {''beginner'', ''intermediate'', ''advanced''}" by simp
  from get_savings_tips_unknown_profile_fails [OF h] h show ?thesis by simp
qed

lemma guarded_ratio_zero: "guarded_ratio a 0 k = Inr 0"
  by (simp add: guarded_ratio_def)

lemma guarded_ratio_total: "\<exists>q. guarded_ratio a income k = Inr q"
  by (simp add: guarded_ratio_def py_truediv_def)

lemma financial_health_total:
  "\<exists>r. calculate_financial_health_score ud = Inr r
       \<and> fh_status r = fst (financial_status (fh_score r))"
proof -
  let ?income = "case ud_monthly_income ud of None \<Rightarrow> 0 | Some x \<Rightarrow> x"
  let ?expenses = "case ud_current_expenses ud of None \<Rightarrow> Map.empty | Some m \<Rightarrow> m"
  obtain q1 where q1: "guarded_ratio (dict_get ?expenses ''savings'' 0) ?income 100 = Inr q1"
    using guarded_ratio_total by blast
  obtain q2 where q2: "guarded_ratio (dict_get ?expenses ''debt_payments'' 0) ?income 100 = Inr q2"
    using guarded_ratio_total by blast
  obtain q3 where q3: "guarded_ratio (dict_get ?expenses ''emergency_fund'' 0) ?income 1 = Inr q3"
    using guarded_ratio_total by blast
  show ?thesis
    by (simp add: calculate_financial_health_score_def Let_def q1 q2 q3)
qed

subsection \<open>The financial-health scorer at income 0\<close>

text \<open>
  Claim C9, as stated, fails. With income 0 the scorer raises nothing and the three
  ratios are 0, but the debt factor then takes its best tier, not its lowest: a user with
  debt payments of 5000 and no income gets 20 points for "excellent debt management",
  whereas the lowest tier of that factor (a ratio above 30) gives 0.
\<close>

theorem zero_income_debt_factor_counterexample: "calculate_financial_health_score indebted_no_income
   = Inr \<lparr>fh_score = 20, fh_max_score = 100, fh_status = ''Poor'', fh_status_color = ''red'',
          fh_factors = [LowIncome, LowSavingsRate 0, ExcellentDebtManagement 0, NoGoals,
                        InsufficientEmergencyFund 0],
          fh_recommendation = ''Poor financial health. Focus on basic budgeting and debt management first.''\<rparr>
   \<and> fst (debt_factor 0) \<noteq> fst (debt_factor 31)"
  by (simp add: indebted_no_income_def calculate_financial_health_score_def guarded_ratio_def income_factor_def
      savings_factor_def debt_factor_def emergency_factor_def goals_factor_def Let_def
      financial_status_def get_health_recommendation_def dict_get_def)

text \<open>
  Claim C9, amended. When the scorer is called with income 0, no division is made and no
  error is raised; the savings rate, the debt ratio and the emergency-fund months are all
  0; the income, savings-rate and emergency-fund factors add their lowest tier (0 points)
  and the debt factor adds its highest tier (20 points), so the score is 20 plus the
  points of the goals factor.
\<close>

theorem zero_income_health_score:
  assumes "ud_monthly_income ud = Some 0"
  shows "\<exists>r. calculate_financial_health_score ud = Inr r
     \<and> fh_factors r =
         [LowIncome, LowSavingsRate 0, ExcellentDebtManagement 0,
          snd (goals_factor (case ud_financial_goals ud of None \<Rightarrow> [] | Some g \<Rightarrow> g)),
          InsufficientEmergencyFund 0]
     \<and> fh_score r =
         0 + 0 + 20 + fst (goals_factor (case ud_financial_goals ud of None \<Rightarrow> [] | Some g \<Rightarrow> g)) + 0"
  using assms
  by (simp add: calculate_financial_health_score_def guarded_ratio_zero income_factor_def
      savings_factor_def debt_factor_def emergency_factor_def Let_def)

theorem zero_income_health_score_witness:
  "ud_monthly_income indebted_no_income = Some 0
   \<and> map_sum id fh_score (calculate_financial_health_score indebted_no_income) = Inr 20"
proof -
  have h: "ud_monthly_income indebted_no_income = Some 0" by (simp add: indebted_no_income_def)
  from zero_income_health_score [OF h] h show ?thesis
    by (auto simp: indebted_no_income_def goals_factor_def)
qed

subsection \<open>The budget allocation\<close>

text \<open>
  Claim C2, as stated, fails. The three amounts of the result are rounded to two decimals
  one by one. For an income of 1000.03, a conservative profile and age 25 they are 550.02,
  250.01 and 200.01, which sum to 1000.04: one cent more than the income, far above 1e-6.
\<close>

theorem budget_allocation_sum_counterexample:
  "calculate_budget_allocation (100003 / 100) Map.empty [] ''conservative'' 25 =
     Inr \<lparr>essential_expenses = \<lparr>amount = 55002 / 100, percentage = 55,
             breakdown = [(''housing'', 30251 / 100), (''utilities'', 99 ),
                          (''groceries'', 1485 / 10)]\<rparr>,
          financial_goals = \<lparr>amount = 25001 / 100, percentage = 25,
             breakdown = [(''emergency_fund'', 100), (''savings'', 75),
                          (''investments'', 75)]\<rparr>,
          discretionary = \<lparr>amount = 20001 / 100, percentage = 20,
             breakdown = [(''entertainment'', 66), (''dining_out'', 54),
                          (''shopping'', 46), (''hobbies'', 34)]\<rparr>\<rparr>
   \<and> \<not> \<bar>55002 / 100 + 25001 / 100 + 20001 / 100 - 100003 / (100::real)\<bar> \<le> 1 / 1000000"
  by (simp add: calculate_budget_allocation_def py_truediv_def py_round2_def Let_def)

text \<open>
  Claim C2, amended. For every income above 0, every risk tolerance and every age the
  allocation is produced, its three amounts are the two-decimal roundings of three
  numbers that sum exactly to the income (the discretionary one being the remainder), and
  the sum of the three amounts is within 0.015 of the income.
\<close>

theorem budget_allocation_sum_within_rounding:
  assumes "income > 0"
  shows "\<exists>a e g d. calculate_budget_allocation income expenses goals risk_tolerance age = Inr a
      \<and> e + g + d = income
      \<and> amount (essential_expenses a) = py_round2 e
      \<and> amount (financial_goals a) = py_round2 g
      \<and> amount (discretionary a) = py_round2 d
      \<and> \<bar>amount (essential_expenses a) + amount (financial_goals a) + amount (discretionary a)
           - income\<bar> \<le> 3 / 200"
proof -
  define e where "e = income * (if risk_tolerance = ''conservative'' then 55 else 50) / 100"
  define g where "g = income * (if age < 30 then 25 else 20) / 100"
  define d where "d = income - (0 + e + g)"
  have sum: "e + g + d = income" by (simp add: d_def)
  have r: "calculate_budget_allocation income expenses goals risk_tolerance age =
      Inr \<lparr>essential_expenses = \<lparr>amount = py_round2 e,
               percentage = (if risk_tolerance = ''conservative'' then 55 else 50),
               breakdown = [(''housing'', py_round2 (e * (55 / 100))),
                            (''utilities'', py_round2 (e * (18 / 100))),
                            (''groceries'', py_round2 (e * (27 / 100)))]\<rparr>,
            financial_goals = \<lparr>amount = py_round2 g,
               percentage = (if age < 30 then 25 else 20),
               breakdown = [(''emergency_fund'', py_round2 (g * (4 / 10))),
                            (''savings'', py_round2 (g * (3 / 10))),
                            (''investments'', py_round2 (g * (3 / 10)))]\<rparr>,
            discretionary = \<lparr>amount = py_round2 d,
               percentage = py_round2 (d / income * 100),
               breakdown = [(''entertainment'', py_round2 (d * (33 / 100))),
                            (''dining_out'', py_round2 (d * (27 / 100))),
                            (''shopping'', py_round2 (d * (23 / 100))),
                            (''hobbies'', py_round2 (d * (17 / 100)))]\<rparr>\<rparr>"
    using assms
    unfolding calculate_budget_allocation_def py_truediv_def Let_def e_def g_def d_def
    by simp
  have ce: "py_round2 e - e \<le> 1 / 200 \<and> - (py_round2 e - e) \<le> 1 / 200"
    by (rule iffD1 [OF abs_le_iff py_round2_close])
  have cg: "py_round2 g - g \<le> 1 / 200 \<and> - (py_round2 g - g) \<le> 1 / 200"
    by (rule iffD1 [OF abs_le_iff py_round2_close])
  have cd: "py_round2 d - d \<le> 1 / 200 \<and> - (py_round2 d - d) \<le> 1 / 200"
    by (rule iffD1 [OF abs_le_iff py_round2_close])
  have "py_round2 e + py_round2 g + py_round2 d - income \<le> 3 / 200
        \<and> - (py_round2 e + py_round2 g + py_round2 d - income) \<le> 3 / 200"
    using ce cg cd sum by linarith
  then have "\<bar>py_round2 e + py_round2 g + py_round2 d - income\<bar> \<le> 3 / 200"
    by (rule iffD2 [OF abs_le_iff])
  with r sum show ?thesis by auto
qed

theorem budget_allocation_sum_within_rounding_witness:
  "(0::real) < 100000
   \<and> (\<exists>a. calculate_budget_allocation 100000 Map.empty [] ''conservative'' 25 = Inr a
          \<and> \<bar>amount (essential_expenses a) + amount (financial_goals a)
               + amount (discretionary a) - 100000\<bar> \<le> 3 / 200)"
proof -
  have h: "(0::real) < 100000" by simp
  from budget_allocation_sum_within_rounding [OF h, of Map.empty "[]" "''conservative''" 25] h
  show ?thesis by blast
qed

section \<open>Properties of the bank analyser\<close>

subsection \<open>The sector loop\<close>

lemma sector_loop_scores:
  "\<exists>es. sector_loop fetch names (sd, t, c) =
          (sd @ es, t + sum_list (map entry_score es), c + length es)
        \<and> map entry_score es = List.map_filter (bank_score fetch) names"
proof (induction names arbitrary: sd t c)
  case Nil
  show ?case by (simp add:)
next
  case (Cons n ns)
  show ?case
  proof (cases "get_bank_stock_data fetch n")
    case (Inl msg)
    then have "bank_score fetch n = None" by (simp add: bank_score_def)
    with Inl Cons [of sd t c] show ?thesis by (simp add:)
  next
    case (Inr d)
    obtain h where h: "calculate_bank_health_score (Inr d) = Inr h"
      by (simp add: calculate_bank_health_score_def Let_def)
    let ?e = "(n, \<lparr>stock_data = d, bank_health = h\<rparr>)"
    from Cons [of "sd @ [?e]" "t + health_score h" "c + 1"]
    obtain es where es:
      "sector_loop fetch ns (sd @ [?e], t + health_score h, c + 1) =
         ((sd @ [?e]) @ es, (t + health_score h) + sum_list (map entry_score es), (c + 1) + length es)"
      "map entry_score es = List.map_filter (bank_score fetch) ns"
      by blast
    have bs: "bank_score fetch n = Some (health_score h)"
      using Inr h by (simp add: bank_score_def)
    have "sector_loop fetch (n # ns) (sd, t, c) =
            (sd @ (?e # es), t + sum_list (map entry_score (?e # es)), c + length (?e # es))"
      using Inr h es(1) by (simp add: entry_score_def)
    moreover have "map entry_score (?e # es) = List.map_filter (bank_score fetch) (n # ns)"
      using bs es(2) by (simp add: entry_score_def)
    ultimately show ?thesis by blast
  qed
qed

lemma overview_char:
  "\<exists>es. map entry_score es = scored_banks fetch \<and>
     get_banking_sector_overview fetch =
       (if es = [] then Inl ''Unable to fetch banking sector data''
        else Inr \<lparr>sector_overview = es,
                  average_sector_score =
                    py_round2 (sum_list (scored_banks fetch) / real (length (scored_banks fetch))),
                  sector_sentiment =
                    fst (sentiment_of (sum_list (scored_banks fetch) / real (length (scored_banks fetch)))),
                  sentiment_color =
                    snd (sentiment_of (sum_list (scored_banks fetch) / real (length (scored_banks fetch)))),
                  total_banks_analyzed = length es\<rparr>)"
proof -
  from sector_loop_scores [of fetch "map fst INDIAN_BANKS" "[]" 0 0]
  obtain es where es:
    "sector_loop fetch (map fst INDIAN_BANKS) ([], 0, 0) =
       (es, sum_list (map entry_score es), length es)"
    "map entry_score es = scored_banks fetch"
    by (auto simp: scored_banks_def)
  have len: "length (scored_banks fetch) = length es"
    using es(2) by (metis length_map)
  show ?thesis
    apply (rule exI [of _ es])
    using es len
    by (simp add: get_banking_sector_overview_def Let_def)
qed


lemma steady_closes: "map Close steady_history = replicate 20 100"
  by (simp add: steady_history_def flat_bar_def spike_bar_def eval_nat_numeral)

lemma steady_vol: "annualized_volatility (map Close steady_history) = Fin 0"
  by (simp add: steady_closes annualized_volatility_def series_std_def dropna_def f_sum_def f_sub_def Let_def eval_nat_numeral)

lemma steady_facts:
  "steady_history \<noteq> []"
  "iloc (map Close steady_history) (- 1) = Inr 100"
  "iloc (map Close steady_history) (- 2) = Inr 100"
  "iloc (map Volume steady_history) (- 1) = Inr 1000"
  "py_int (rolling_mean_last 20 (map (\<lambda>b. real_of_int (Volume b)) steady_history)) = Inr 145"
  "rolling_mean_last 20 (map Close steady_history) = Fin 100"
  "rolling_mean_last 50 (map Close steady_history) = NaN"
  "Max (High ` set steady_history) = 101"
  "Min (Low ` set steady_history) = 99"
  by (simp_all add: steady_history_def flat_bar_def spike_bar_def iloc_def rolling_mean_last_def
      eval_nat_numeral)

lemma steady_metrics:
  "bank_metrics name t (steady_feed i) =
    Inr (Inr \<lparr>bank_name = name, symbol = t, current_price = Fin 100, price_change = Fin 0,
       price_change_pct = Fin 0, volatility = Fin 0, ma_20 = Fin 100, ma_50 = NaN,
       market_cap = PyStr (case marketCap i of None \<Rightarrow> ''N/A'' | Some n \<Rightarrow> py_str_int n),
       volume = 1000, avg_volume = 145, high_52w = Fin 101, low_52w = Fin 99,
       pe_ratio = (case trailingPE i of None \<Rightarrow> PyStr ''N/A''
                       | Some v \<Rightarrow> if v = 0 then PyStr ''N/A'' else PyNum (Fin v)),
       pb_ratio = (case priceToBook i of None \<Rightarrow> PyStr ''N/A''
                       | Some v \<Rightarrow> if v = 0 then PyStr ''N/A'' else PyNum (Fin v)),
       dividend_yield = (case dividendYield i of None \<Rightarrow> Fin 0
                       | Some v \<Rightarrow> if v = 0 then Fin 0 else Fin (v * 100))\<rparr>)"
  by (simp add: steady_feed_def bank_metrics_def Let_def steady_vol steady_facts f_sub_def py_round2_def)

lemma steady_bank_score:
  assumes "map_of INDIAN_BANKS name = Some t" "fetch t = Inr (steady_feed i)"
  shows "bank_score fetch name =
     Some (25 + fst (pe_block (case trailingPE i of None \<Rightarrow> PyStr ''N/A''
                       | Some v \<Rightarrow> if v = 0 then PyStr ''N/A'' else PyNum (Fin v)))
              + fst (pb_block (case priceToBook i of None \<Rightarrow> PyStr ''N/A''
                       | Some v \<Rightarrow> if v = 0 then PyStr ''N/A'' else PyNum (Fin v)))
              + fst (dividend_block (case dividendYield i of None \<Rightarrow> Fin 0
                       | Some v \<Rightarrow> if v = 0 then Fin 0 else Fin (v * 100))))"
  using assms
  by (simp add: bank_score_def get_bank_stock_data_def steady_metrics
      calculate_bank_health_score_def bank_rubric_def price_block_def volatility_block_def
      ma_block_def volume_block_def market_cap_block_def is_number_above_def Let_def)

lemma failed_bank_score:
  assumes "map_of INDIAN_BANKS name = Some t" "fetch t = Inl e"
  shows "bank_score fetch name = None"
  using assms by (simp add: bank_score_def get_bank_stock_data_def)

lemma scen_both: "scored_banks (feed_table [(''HDFCBANK.NS'', steady_feed no_info)]) = [25]"
  by (simp add: scored_banks_def INDIAN_BANKS_def map_filter_simps feed_table_def
       steady_bank_score [where t = "''HDFCBANK.NS''" and i = no_info]
       failed_bank_score [where e = FetchError]
       no_info_def pe_block_def pb_block_def dividend_block_def)


subsection \<open>Status bands\<close>

lemma bank_health_total:
  "\<exists>h. calculate_bank_health_score (Inr d) = Inr h
       \<and> status h = fst (health_status (health_score h))"
  by (simp add: calculate_bank_health_score_def Let_def)

text \<open>
  Claim C5. Both scorers derive the status from the total score by the same band table
  with closed lower bounds: the bank scorer and the financial-health scorer always
  return, and the status of the result is the band of its score; the two band functions
  agree on every integer score; a score of at least 80 is Excellent, from 60 up to but
  not including 80 Good, from 40 up to but not including 60 Fair, below 40 Poor; so 80
  gives Excellent and 79 gives Good.
\<close>

theorem status_bands_shared:
  "(\<forall>d. \<exists>h. calculate_bank_health_score (Inr d) = Inr h
            \<and> status h = fst (health_status (health_score h)))
   \<and> (\<forall>ud. \<exists>r. calculate_financial_health_score ud = Inr r
            \<and> fh_status r = fst (financial_status (fh_score r)))
   \<and> (\<forall>n. financial_status n = health_status (real_of_int n))
   \<and> (\<forall>s. (fst (health_status s) = ''Excellent'') = (80 \<le> s)
          \<and> (fst (health_status s) = ''Good'') = (60 \<le> s \<and> s < 80)
          \<and> (fst (health_status s) = ''Fair'') = (40 \<le> s \<and> s < 60)
          \<and> (fst (health_status s) = ''Poor'') = (s < 40))
   \<and> fst (health_status 80) = ''Excellent'' \<and> fst (health_status 79) = ''Good''
   \<and> fst (financial_status 80) = ''Excellent'' \<and> fst (financial_status 79) = ''Good''"
proof -
  have a: "\<forall>n. financial_status n = health_status (real_of_int n)"
    by (simp add: financial_status_def health_status_def)
  have b: "\<forall>s. (fst (health_status s) = ''Excellent'') = (80 \<le> s)
          \<and> (fst (health_status s) = ''Good'') = (60 \<le> s \<and> s < 80)
          \<and> (fst (health_status s) = ''Fair'') = (40 \<le> s \<and> s < 60)
          \<and> (fst (health_status s) = ''Poor'') = (s < 40)"
    by (simp add: health_status_def)
  have c: "fst (health_status 80) = ''Excellent'' \<and> fst (health_status 79) = ''Good''
   \<and> fst (financial_status 80) = ''Excellent'' \<and> fst (financial_status 79) = ''Good''"
    by (simp add: financial_status_def health_status_def)
  from a b c bank_health_total financial_health_total show ?thesis by blast
qed

subsection \<open>Sector sentiment\<close>

lemma overview_sentiment:
  assumes "get_banking_sector_overview fetch = Inr r"
  shows "sector_sentiment r =
           fst (sentiment_of (sum_list (scored_banks fetch) / real (length (scored_banks fetch))))
       \<and> average_sector_score r =
           py_round2 (sum_list (scored_banks fetch) / real (length (scored_banks fetch)))
       \<and> map entry_score (sector_overview r) = scored_banks fetch"
proof -
  from overview_char [of fetch] obtain es where
    es: "map entry_score es = scored_banks fetch"
    and ov: "get_banking_sector_overview fetch =
       (if es = [] then Inl ''Unable to fetch banking sector data''
        else Inr \<lparr>sector_overview = es,
                  average_sector_score =
                    py_round2 (sum_list (scored_banks fetch) / real (length (scored_banks fetch))),
                  sector_sentiment =
                    fst (sentiment_of (sum_list (scored_banks fetch) / real (length (scored_banks fetch)))),
                  sentiment_color =
                    snd (sentiment_of (sum_list (scored_banks fetch) / real (length (scored_banks fetch)))),
                  total_banks_analyzed = length es\<rparr>)"
    by blast
  from assms ov es show ?thesis by (auto split: if_splits)
qed

text \<open>
  Claim C6. The sector sentiment is Bullish for an average of at least 70, Neutral from 50
  up to but not including 70, Bearish below 50 (70 is Bullish, 69.99 Neutral, 50 Neutral,
  49.99 Bearish); the overview applies this table to the sum of the scores of the banks
  it kept divided by their number; and the table is not the status table of the scorers:
  75 is Bullish but only Good, 45 is Bearish but Fair.
\<close>

theorem sector_sentiment_bands:
  "(\<forall>a. (fst (sentiment_of a) = ''Bullish'') = (70 \<le> a)
        \<and> (fst (sentiment_of a) = ''Neutral'') = (50 \<le> a \<and> a < 70)
        \<and> (fst (sentiment_of a) = ''Bearish'') = (a < 50))
   \<and> fst (sentiment_of 70) = ''Bullish'' \<and> fst (sentiment_of (6999 / 100)) = ''Neutral''
   \<and> fst (sentiment_of 50) = ''Neutral'' \<and> fst (sentiment_of (4999 / 100)) = ''Bearish''
   \<and> (\<forall>fetch r. get_banking_sector_overview fetch = Inr r \<longrightarrow>
         sector_sentiment r =
           fst (sentiment_of (sum_list (scored_banks fetch) / real (length (scored_banks fetch)))))
   \<and> fst (sentiment_of 75) = ''Bullish'' \<and> fst (health_status 75) = ''Good''
   \<and> fst (sentiment_of 45) = ''Bearish'' \<and> fst (health_status 45) = ''Fair''"
proof -
  have a: "\<forall>a. (fst (sentiment_of a) = ''Bullish'') = (70 \<le> a)
        \<and> (fst (sentiment_of a) = ''Neutral'') = (50 \<le> a \<and> a < 70)
        \<and> (fst (sentiment_of a) = ''Bearish'') = (a < 50)"
    by (simp add: sentiment_of_def)
  have b: "fst (sentiment_of 70) = ''Bullish'' \<and> fst (sentiment_of (6999 / 100)) = ''Neutral''
   \<and> fst (sentiment_of 50) = ''Neutral'' \<and> fst (sentiment_of (4999 / 100)) = ''Bearish''
   \<and> fst (sentiment_of 75) = ''Bullish'' \<and> fst (health_status 75) = ''Good''
   \<and> fst (sentiment_of 45) = ''Bearish'' \<and> fst (health_status 45) = ''Fair''"
    by (simp add: sentiment_of_def health_status_def)
  from a b overview_sentiment show ?thesis by blast
qed

theorem sector_sentiment_bands_witness:
  "\<exists>r. get_banking_sector_overview lone_weak_bank = Inr r \<and> sector_sentiment r = ''Bearish''"
proof -
  have sb: "scored_banks lone_weak_bank = [25]"
    unfolding lone_weak_bank_def by (rule scen_both)
  from overview_char [of lone_weak_bank] sb
  obtain r where r: "get_banking_sector_overview lone_weak_bank = Inr r"
    by (auto split: if_splits)
  from sector_sentiment_bands
  have "\<forall>fetch r. get_banking_sector_overview fetch = Inr r \<longrightarrow>
         sector_sentiment r =
           fst (sentiment_of (sum_list (scored_banks fetch) / real (length (scored_banks fetch))))"
    by blast
  with r have "sector_sentiment r =
      fst (sentiment_of (sum_list (scored_banks lone_weak_bank) / real (length (scored_banks lone_weak_bank))))"
    by blast
  then have "sector_sentiment r = ''Bearish''"
    by (simp add: sb sentiment_of_def)
  with r show ?thesis by blast
qed

subsection \<open>Warning indicators\<close>










subsection \<open>The range of the bank score\<close>

lemma price_block_bounds: "0 \<le> fst (price_block p) \<and> fst (price_block p) \<le> 20"
  by (cases p) (auto simp: price_block_def)

lemma other_block_bounds:
  "0 \<le> fst (volatility_block v) \<and> fst (volatility_block v) \<le> 15"
  "0 \<le> fst (ma_block c m20 m50) \<and> fst (ma_block c m20 m50) \<le> 15"
  "0 \<le> fst (pe_block pe) \<and> fst (pe_block pe) \<le> 15"
  "0 \<le> fst (pb_block pb) \<and> fst (pb_block pb) \<le> 10"
  "0 \<le> fst (dividend_block dv) \<and> fst (dividend_block dv) \<le> 10"
  "0 \<le> fst (volume_block cv av) \<and> fst (volume_block cv av) \<le> 10"
  "0 \<le> fst (market_cap_block mc) \<and> fst (market_cap_block mc) \<le> 10"
  by (auto simp: volatility_block_def ma_block_def pe_block_def pb_block_def
      dividend_block_def volume_block_def market_cap_block_def split: pyval.splits)

lemma bank_health_score_bounds:
  assumes "calculate_bank_health_score (Inr d) = Inr h"
  shows "0 \<le> health_score h \<and> health_score h \<le> 105"
proof -
  have "health_score h =
      fst (price_block (price_change_pct d)) + fst (volatility_block (volatility d))
    + fst (ma_block (current_price d) (ma_20 d) (ma_50 d)) + fst (pe_block (pe_ratio d))
    + fst (pb_block (pb_ratio d)) + fst (dividend_block (dividend_yield d))
    + fst (volume_block (volume d) (avg_volume d)) + fst (market_cap_block (market_cap d))"
    using assms by (auto simp: calculate_bank_health_score_def Let_def bank_rubric_def)
  then show ?thesis
    using price_block_bounds [of "price_change_pct d"]
      other_block_bounds(1) [of "volatility d"]
      other_block_bounds(2) [of "current_price d" "ma_20 d" "ma_50 d"]
      other_block_bounds(3) [of "pe_ratio d"]
      other_block_bounds(4) [of "pb_ratio d"]
      other_block_bounds(5) [of "dividend_yield d"]
      other_block_bounds(6) [of "volume d" "avg_volume d"]
      other_block_bounds(7) [of "market_cap d"]
    by linarith
qed

lemma fetched_market_cap_is_text:
  assumes "get_bank_stock_data fetch name = Inr d"
  shows "fst (market_cap_block (market_cap d)) = 0"
  using assms
  by (auto simp: get_bank_stock_data_def bank_metrics_def Let_def market_cap_block_def
      is_number_above_def split: option.splits sum.splits if_splits)

text \<open>
  Claim C1 does not hold of the code. The best tiers of the eight rubric blocks are 20,
  15, 15, 15, 10, 10, 10 and 10 points, which sum to 105: for metrics that reach every
  best tier the scorer returns a score of 105 next to a \<open>max_score\<close> of 100. (The score
  is always between 0 and 105, see \<open>bank_health_score_bounds\<close>; the valuation section is
  commented as worth 20 points in the source but awards up to 15 + 10.)
\<close>

theorem bank_score_exceeds_max:
  "map fst (bank_rubric top_tier_data) = [20, 15, 15, 15, 10, 10, 10, 10]
   \<and> map_sum id health_score (calculate_bank_health_score (Inr top_tier_data)) = Inr 105
   \<and> map_sum id max_score (calculate_bank_health_score (Inr top_tier_data)) = Inr 100"
  by (simp add: calculate_bank_health_score_def Let_def top_tier_data_def bank_rubric_def
      price_block_def volatility_block_def ma_block_def pe_block_def pb_block_def
      dividend_block_def volume_block_def market_cap_block_def is_number_above_def)

subsection \<open>Short histories and a zero previous close\<close>

lemma iloc_last: "xs \<noteq> [] \<Longrightarrow> iloc xs (- 1) = Inr (last xs)"
  by (cases xs rule: rev_cases) (auto simp: iloc_def nth_append)

lemma iloc_prev: "2 \<le> length xs \<Longrightarrow> iloc xs (- 2) = Inr (xs ! (length xs - 2))"
proof -
  assume l: "2 \<le> length xs"
  then have "nat (int (length xs) + - 2) = length xs - 2" by simp
  with l show ?thesis by (simp add: iloc_def)
qed

lemma std_short: "length (dropna vs) \<le> 1 \<Longrightarrow> series_std vs = NaN"
  by (simp add: series_std_def Let_def)

lemma volatility_two: "annualized_volatility [x, y] = NaN"
proof -
  have "length (dropna (dropna (pct_change [x, y]))) \<le> 1"
    by (simp add: dropna_def)
  then have "series_std (dropna (pct_change [x, y])) = NaN" by (rule std_short)
  then show ?thesis by (simp add: annualized_volatility_def Let_def)
qed

lemma two_bar_general:
  assumes "map_of INDIAN_BANKS name = Some t" "fetch t = Inr feed" "length (hist_data feed) = 2"
  shows "annualized_volatility (map Close (hist_data feed)) = NaN
       \<and> bank_metrics name t feed = Inl ValueError
       \<and> get_bank_stock_data fetch name = Inl (''Failed to fetch data for '' @ name)"
proof -
  from assms(3) obtain a b where h: "hist_data feed = [a, b]"
    by (cases "hist_data feed"; cases "tl (hist_data feed)") auto
  have v: "annualized_volatility (map Close (hist_data feed)) = NaN"
    by (simp add: h volatility_two)
  have m: "bank_metrics name t feed = Inl ValueError"
    by (simp add: bank_metrics_def Let_def h iloc_def rolling_mean_last_def)
  from v m assms(1,2) show ?thesis by (simp add: get_bank_stock_data_def)
qed

text \<open>
  Claim C3, as stated, fails. For two days at an equal close of 100 the volatility
  computed is NaN, not 0: the one daily return has no sample standard deviation. The
  call does not return metrics either: the 20-day average volume is NaN, its conversion
  to an integer raises, and the error dictionary is returned.
\<close>

theorem two_bar_volatility_counterexample:
  "Close (hist_data two_day_feed ! 0) = Close (hist_data two_day_feed ! 1)
   \<and> annualized_volatility (map Close (hist_data two_day_feed)) = NaN
   \<and> annualized_volatility (map Close (hist_data two_day_feed)) \<noteq> Fin 0
   \<and> get_bank_stock_data (feed_table [(''HDFCBANK.NS'', two_day_feed)]) ''HDFC Bank''
       = Inl ''Failed to fetch data for HDFC Bank''"
proof -
  have a: "map_of INDIAN_BANKS ''HDFC Bank'' = Some ''HDFCBANK.NS''"
    by (simp add: INDIAN_BANKS_def)
  have b: "feed_table [(''HDFCBANK.NS'', two_day_feed)] ''HDFCBANK.NS'' = Inr two_day_feed"
    by (simp add: feed_table_def)
  have c: "length (hist_data two_day_feed) = 2" by (simp add: two_day_feed_def)
  from two_bar_general [where fetch = "feed_table [(''HDFCBANK.NS'', two_day_feed)]", OF a b c] show ?thesis by (simp add: two_day_feed_def)
qed

text \<open>
  Claim C3, amended. For a history of exactly two bars, whatever the closes, the
  annualised volatility that is computed is NaN (the sample standard deviation of fewer
  than two returns), and \<open>get_bank_stock_data\<close> returns its error dictionary "Failed to
  fetch data" rather than metrics, because the 20-day average volume is NaN and cannot
  be converted to an integer.
\<close>

theorem two_bar_volatility_is_nan:
  assumes "map_of INDIAN_BANKS name = Some t" "fetch t = Inr feed" "length (hist_data feed) = 2"
  shows "annualized_volatility (map Close (hist_data feed)) = NaN
       \<and> bank_metrics name t feed = Inl ValueError
       \<and> get_bank_stock_data fetch name = Inl (''Failed to fetch data for '' @ name)"
  using assms by (rule two_bar_general)

theorem two_bar_volatility_is_nan_witness:
  "map_of INDIAN_BANKS ''Axis Bank'' = Some ''AXISBANK.NS''
   \<and> feed_table [(''AXISBANK.NS'', two_day_spike_feed)] ''AXISBANK.NS'' = Inr two_day_spike_feed
   \<and> length (hist_data two_day_spike_feed) = 2
   \<and> annualized_volatility (map Close (hist_data two_day_spike_feed)) = NaN
   \<and> get_bank_stock_data (feed_table [(''AXISBANK.NS'', two_day_spike_feed)]) ''Axis Bank''
       = Inl ''Failed to fetch data for Axis Bank''"
proof -
  have a: "map_of INDIAN_BANKS ''Axis Bank'' = Some ''AXISBANK.NS''"
    by (simp add: INDIAN_BANKS_def)
  have b: "feed_table [(''AXISBANK.NS'', two_day_spike_feed)] ''AXISBANK.NS'' = Inr two_day_spike_feed"
    by (simp add: feed_table_def)
  have c: "length (hist_data two_day_spike_feed) = 2" by (simp add: two_day_spike_feed_def)
  from two_bar_volatility_is_nan
         [where fetch = "feed_table [(''AXISBANK.NS'', two_day_spike_feed)]", OF a b c] a b c
  show ?thesis by simp
qed

lemma zero_previous_close_general:
  assumes "map_of INDIAN_BANKS name = Some t" "fetch t = Inr feed"
    "20 \<le> length (hist_data feed)"
    "Close (hist_data feed ! (length (hist_data feed) - 2)) = 0"
  shows "\<exists>d. get_bank_stock_data fetch name = Inr d
       \<and> bank_metrics name t feed = Inr (Inr d)
       \<and> price_change_pct d =
           (if 0 < Close (last (hist_data feed)) then PInf
            else if Close (last (hist_data feed)) < 0 then NInf else NaN)"
proof -
  let ?h = "hist_data feed"
  have ne: "?h \<noteq> []" using assms(3) by auto
  have l2: "2 \<le> length (map Close ?h)" using assms(3) by simp
  have i1: "iloc (map Close ?h) (- 1) = Inr (Close (last ?h))"
    using ne by (simp add: iloc_last last_map)
  have i2: "iloc (map Close ?h) (- 2) = Inr 0"
    using iloc_prev [OF l2] assms(3,4) by simp
  have i3: "iloc (map Volume ?h) (- 1) = Inr (Volume (last ?h))"
    using ne by (simp add: iloc_last last_map)
  have i4: "\<exists>m. py_int (rolling_mean_last 20 (map (\<lambda>b. real_of_int (Volume b)) ?h)) = Inr m"
    using assms(3) by (simp add: rolling_mean_last_def)
  then obtain m where m: "py_int (rolling_mean_last 20 (map (\<lambda>b. real_of_int (Volume b)) ?h)) = Inr m"
    by blast
  have pct: "f_round2 (f_mul (f_div (f_sub (Fin (Close (last ?h))) (Fin 0)) (Fin 0)) (Fin 100)) =
           (if 0 < Close (last ?h) then PInf
            else if Close (last ?h) < 0 then NInf else NaN)"
    by (simp add: f_sub_def)
  have "\<exists>d. bank_metrics name t feed = Inr (Inr d)
       \<and> price_change_pct d =
           (if 0 < Close (last ?h) then PInf
            else if Close (last ?h) < 0 then NInf else NaN)"
    unfolding bank_metrics_def Let_def
    using ne by (simp add: i1 i2 i3 m pct del: f_round2.simps f_mul.simps f_div.simps)
  then show ?thesis using assms(1,2) by (auto simp: get_bank_stock_data_def)
qed

text \<open>
  Claim C4, as stated, fails. For a history of 20 days whose second-to-last close is 0
  and whose last close is 100, \<open>get_bank_stock_data\<close> does not fail: it returns metrics
  whose \<open>price_change_pct\<close> is the positive infinity.
\<close>

theorem zero_previous_close_counterexample:
  "Close (hist_data halted_feed ! (length (hist_data halted_feed) - 2)) = 0
   \<and> map_sum id price_change_pct
        (get_bank_stock_data (feed_table [(''HDFCBANK.NS'', halted_feed)]) ''HDFC Bank'')
       = Inr PInf"
proof -
  have a: "map_of INDIAN_BANKS ''HDFC Bank'' = Some ''HDFCBANK.NS''"
    by (simp add: INDIAN_BANKS_def)
  have b: "feed_table [(''HDFCBANK.NS'', halted_feed)] ''HDFCBANK.NS'' = Inr halted_feed"
    by (simp add: feed_table_def)
  have c: "20 \<le> length (hist_data halted_feed)" by (simp add: halted_feed_def)
  have d: "Close (hist_data halted_feed ! (length (hist_data halted_feed) - 2)) = 0"
    by (simp add: halted_feed_def halted_bar_def nth_append)
  have e: "0 < Close (last (hist_data halted_feed))"
    by (simp add: halted_feed_def spike_bar_def)
  from zero_previous_close_general
         [where fetch = "feed_table [(''HDFCBANK.NS'', halted_feed)]", OF a b c d] d e
  show ?thesis by auto
qed

text \<open>
  Claim C4, amended. There is no guard on the previous close. For a roster bank whose
  history has at least 20 bars and a second-to-last close of 0, no division-by-zero error
  is raised and no error dictionary is returned: \<open>get_bank_stock_data\<close> returns metrics
  whose \<open>price_change_pct\<close> is not a finite number, namely the positive infinity if the
  last close is above 0, the negative infinity if it is below 0, and NaN if it is 0.
\<close>

theorem zero_previous_close_not_guarded:
  assumes "map_of INDIAN_BANKS name = Some t" "fetch t = Inr feed"
    "20 \<le> length (hist_data feed)"
    "Close (hist_data feed ! (length (hist_data feed) - 2)) = 0"
  shows "\<exists>d. get_bank_stock_data fetch name = Inr d
       \<and> bank_metrics name t feed = Inr (Inr d)
       \<and> price_change_pct d =
           (if 0 < Close (last (hist_data feed)) then PInf
            else if Close (last (hist_data feed)) < 0 then NInf else NaN)"
  using assms by (rule zero_previous_close_general)

theorem zero_previous_close_not_guarded_witness:
  "map_of INDIAN_BANKS ''IDBI Bank'' = Some ''IDBI.NS''
   \<and> feed_table [(''IDBI.NS'', halted_long_feed)] ''IDBI.NS'' = Inr halted_long_feed
   \<and> 20 \<le> length (hist_data halted_long_feed)
   \<and> Close (hist_data halted_long_feed ! (length (hist_data halted_long_feed) - 2)) = 0
   \<and> (\<exists>d. get_bank_stock_data (feed_table [(''IDBI.NS'', halted_long_feed)]) ''IDBI Bank'' = Inr d
          \<and> price_change_pct d = PInf)"
proof -
  have a: "map_of INDIAN_BANKS ''IDBI Bank'' = Some ''IDBI.NS''"
    by (simp add: INDIAN_BANKS_def)
  have b: "feed_table [(''IDBI.NS'', halted_long_feed)] ''IDBI.NS'' = Inr halted_long_feed"
    by (simp add: feed_table_def)
  have c: "20 \<le> length (hist_data halted_long_feed)" by (simp add: halted_long_feed_def)
  have d: "Close (hist_data halted_long_feed ! (length (hist_data halted_long_feed) - 2)) = 0"
    by (simp add: halted_long_feed_def halted_bar_def nth_append)
  have e: "0 < Close (last (hist_data halted_long_feed))"
    by (simp add: halted_long_feed_def spike_bar_def)
  from zero_previous_close_not_guarded
         [where fetch = "feed_table [(''IDBI.NS'', halted_long_feed)]", OF a b c d] a b c d e
  show ?thesis by auto
qed

end
